theory Spec2Isabelle
  imports Main "HOL-Library.Multiset"
begin

section \<open>Data model\<close>

text \<open>
  The three tables of \<^verbatim>\<open>src/database/schema.sql\<close>. A row is a record whose fields are
  the columns, in the order of the schema. Identifiers are the values of the
  \<^verbatim>\<open>INTEGER\<close>/\<^verbatim>\<open>SERIAL\<close> columns; a path parameter of a request is the integer its text
  denotes, which need not fit such a column. Nullable columns written by the code with a
  possibly missing value are options; \<^verbatim>\<open>verified\<close> and \<^verbatim>\<open>tracked_courses\<close> are only ever
  written with a value (the \<^verbatim>\<open>INSERT\<close> of createUser passes \<^verbatim>\<open>false\<close> and leaves the array
  to its default \<^verbatim>\<open>'{}'\<close>), so they carry one.
\<close>

record user_row =
  u_id :: int
  u_email :: string
  u_password_hash :: string
  u_verified :: bool
  u_tracked_courses :: "int list"

record course_row =
  c_id :: int
  c_name :: string
  c_description :: "string option"
  c_instructor :: "string option"

record assignment_row =
  a_id :: int
  a_title :: string
  a_description :: "string option"
  a_due_date :: "string option"
  a_course_id :: "int option"
  a_file_path :: "string option"

text \<open>
  The persistent store: the tables, the three \<^verbatim>\<open>SERIAL\<close> sequences (the last value
  handed out), and whether the server can be reached at all: \<^verbatim>\<open>pool.connect()\<close> and
  \<^verbatim>\<open>db.query()\<close> reject when it cannot.
\<close>

record database =
  online :: bool
  tbl_users :: "user_row list"
  tbl_courses :: "course_row list"
  tbl_assignments :: "assignment_row list"
  seq_users :: int
  seq_courses :: int
  seq_assignments :: int

text \<open>What a JavaScript call can throw in the code under study.\<close>

datatype js_error =
    StoreError          \<comment> \<open>the \<^verbatim>\<open>pg\<close> client rejects: server unreachable or constraint violated\<close>
  | ReferenceError      \<comment> \<open>an identifier that no declaration binds is read\<close>
  | TypeError           \<comment> \<open>property read on \<^verbatim>\<open>undefined\<close>\<close>
  | IllegalArguments    \<comment> \<open>\<^verbatim>\<open>bcryptjs\<close> called with a non-string\<close>
  | SecretMissing       \<comment> \<open>\<^verbatim>\<open>jsonwebtoken\<close> called without a key\<close>

type_synonym 'a result = "(js_error + 'a) \<times> database"

section \<open>SQL statements\<close>

text \<open>PostgreSQL's \<^verbatim>\<open>array_append\<close> and \<^verbatim>\<open>array_remove\<close> on a one-dimensional array.\<close>

definition array_append :: "int list \<Rightarrow> int \<Rightarrow> int list" where
  "array_append xs x = xs @ [x]"

definition array_remove :: "int list \<Rightarrow> int \<Rightarrow> int list" where
  "array_remove xs x = filter (\<lambda>y. y \<noteq> x) xs"

text \<open>
  The handlers pass path parameters and body members to the statements unchecked, and
  PostgreSQL converts each to the type of the column it meets. A parameter compared
  with, or stored in, an \<^verbatim>\<open>INTEGER\<close> column or an element of \<^verbatim>\<open>INTEGER[]\<close> must be a 32-bit
  integer, a text stored in a \<^verbatim>\<open>VARCHAR(255)\<close> column must have at most 255 characters;
  otherwise the statement is rejected and nothing is read or written.
\<close>

definition in_int4 :: "int \<Rightarrow> bool" where
  "in_int4 i = (- 2147483648 \<le> i \<and> i \<le> 2147483647)"

definition fits_varchar255 :: "string option \<Rightarrow> bool" where
  "fits_varchar255 text = (case text of None \<Rightarrow> True | Some t \<Rightarrow> length t \<le> 255)"

definition fits_int4 :: "int option \<Rightarrow> bool" where
  "fits_int4 i = (case i of None \<Rightarrow> True | Some n \<Rightarrow> in_int4 n)"

text \<open>
  \<^verbatim>\<open>SELECT * FROM users\<close>, with or without a condition on \<^verbatim>\<open>email\<close> or \<^verbatim>\<open>verified\<close>: the
  rows that satisfy the condition. A text of any length can be compared with \<^verbatim>\<open>email\<close>.
\<close>

definition select_users :: "(user_row \<Rightarrow> bool) \<Rightarrow> database \<Rightarrow> user_row list result" where
  "select_users cond db =
     (if online db then (Inr (filter cond (tbl_users db)), db) else (Inl StoreError, db))"

text \<open>\<^verbatim>\<open>SELECT * FROM users WHERE id = $1\<close>\<close>

definition select_user_by_id :: "int \<Rightarrow> database \<Rightarrow> user_row list result" where
  "select_user_by_id userId db =
     (if online db \<and> in_int4 userId
      then (Inr (filter (\<lambda>u. u_id u = userId) (tbl_users db)), db)
      else (Inl StoreError, db))"

text \<open>
  \<^verbatim>\<open>UPDATE users SET ... WHERE id = $n\<close> for the assignments the code makes
  (\<^verbatim>\<open>verified\<close>, \<^verbatim>\<open>tracked_courses\<close>), none of which can violate a constraint of the
  schema. PostgreSQL writes a new version of every row of that identifier, also when the
  new values are the old ones, and keeps the other rows; a later \<^verbatim>\<open>SELECT\<close> without
  \<^verbatim>\<open>ORDER BY\<close> need not list the rows in the order it did before. The table afterwards is
  the rows kept followed by the new versions.
\<close>

definition update_users_by_id ::
  "(user_row \<Rightarrow> user_row) \<Rightarrow> int \<Rightarrow> database \<Rightarrow> unit result" where
  "update_users_by_id set_cols userId db =
     (if online db \<and> in_int4 userId
      then (Inr (), db\<lparr>tbl_users :=
                         filter (\<lambda>u. u_id u \<noteq> userId) (tbl_users db)
                         @ map set_cols (filter (\<lambda>u. u_id u = userId) (tbl_users db))\<rparr>)
      else (Inl StoreError, db))"

section \<open>The tracked-course helpers of the database module\<close>

text \<open>
  \<^verbatim>\<open>UPDATE users SET tracked_courses = array_append(tracked_courses, $1) WHERE id = $2\<close>:
  \<^verbatim>\<open>$1\<close> becomes an element of the \<^verbatim>\<open>INTEGER[]\<close> column, \<^verbatim>\<open>$2\<close> is compared with \<^verbatim>\<open>id\<close>.
  The promise of the helper rejects when the statement is rejected.
\<close>

definition addTrackedCourse :: "int \<Rightarrow> int \<Rightarrow> database \<Rightarrow> unit result" where
  "addTrackedCourse userId courseId db =
     (if \<not> in_int4 courseId then (Inl StoreError, db)
      else update_users_by_id
             (\<lambda>u. u\<lparr>u_tracked_courses := array_append (u_tracked_courses u) courseId\<rparr>)
             userId db)"

text \<open>
  \<^verbatim>\<open>UPDATE users SET tracked_courses = array_remove(tracked_courses, $1) WHERE id = $2\<close>:
  \<^verbatim>\<open>$1\<close> is compared with the elements of the \<^verbatim>\<open>INTEGER[]\<close> column, \<^verbatim>\<open>$2\<close> with \<^verbatim>\<open>id\<close>.
\<close>

definition removeTrackedCourse :: "int \<Rightarrow> int \<Rightarrow> database \<Rightarrow> unit result" where
  "removeTrackedCourse userId courseId db =
     (if \<not> in_int4 courseId then (Inl StoreError, db)
      else update_users_by_id
             (\<lambda>u. u\<lparr>u_tracked_courses := array_remove (u_tracked_courses u) courseId\<rparr>)
             userId db)"

text \<open>
  \<^verbatim>\<open>SELECT tracked_courses FROM users WHERE id = $1\<close>, then
  \<^verbatim>\<open>result.rows[0].tracked_courses\<close>: with no row, \<^verbatim>\<open>rows[0]\<close> is \<^verbatim>\<open>undefined\<close> and the
  property read throws.
\<close>

definition getTrackedCourses :: "int \<Rightarrow> database \<Rightarrow> int list result" where
  "getTrackedCourses userId db =
     (case select_user_by_id userId db of
        (Inl e, db') \<Rightarrow> (Inl e, db')
      | (Inr [], db') \<Rightarrow> (Inl TypeError, db')
      | (Inr (row # _), db') \<Rightarrow> (Inr (u_tracked_courses row), db'))"

text \<open>
  \<^verbatim>\<open>INSERT INTO users (email, password_hash, verified) VALUES ($1, $2, $3) RETURNING *\<close>.
  \<^verbatim>\<open>email\<close> and \<^verbatim>\<open>password_hash\<close> are \<^verbatim>\<open>VARCHAR(255)\<close>. The identifier is the next value
  of the sequence, which stays consumed when the statement fails on a constraint: a
  \<^verbatim>\<open>NULL\<close> email (\<^verbatim>\<open>NOT NULL\<close>), an email already stored (\<^verbatim>\<open>UNIQUE\<close>), an identifier
  already stored (\<^verbatim>\<open>PRIMARY KEY\<close>).
\<close>

definition insert_user ::
  "string option \<Rightarrow> string \<Rightarrow> bool \<Rightarrow> database \<Rightarrow> user_row list result" where
  "insert_user email password_hash verified db =
     (if \<not> online db then (Inl StoreError, db)
      else if \<not> fits_varchar255 email \<or> \<not> fits_varchar255 (Some password_hash)
      then (Inl StoreError, db)
      else
        let nid = seq_users db + 1; db1 = db\<lparr>seq_users := nid\<rparr> in
        case email of
          None \<Rightarrow> (Inl StoreError, db1)
        | Some e \<Rightarrow>
            if e \<in> set (map u_email (tbl_users db)) \<or> nid \<in> set (map u_id (tbl_users db))
            then (Inl StoreError, db1)
            else
              let row = \<lparr>u_id = nid, u_email = e, u_password_hash = password_hash,
                         u_verified = verified, u_tracked_courses = []\<rparr>
              in (Inr [row], db1\<lparr>tbl_users := tbl_users db @ [row]\<rparr>))"

text \<open>\<^verbatim>\<open>SELECT * FROM courses\<close> and \<^verbatim>\<open>SELECT * FROM assignments\<close>.\<close>

definition select_courses :: "database \<Rightarrow> course_row list result" where
  "select_courses db =
     (if online db then (Inr (tbl_courses db), db) else (Inl StoreError, db))"

definition select_assignments :: "database \<Rightarrow> assignment_row list result" where
  "select_assignments db =
     (if online db then (Inr (tbl_assignments db), db) else (Inl StoreError, db))"

text \<open>
  \<^verbatim>\<open>INSERT INTO courses (name, description, instructor) VALUES ($1, $2, $3) RETURNING *\<close>:
  \<^verbatim>\<open>name\<close> and \<^verbatim>\<open>instructor\<close> are \<^verbatim>\<open>VARCHAR(255)\<close>, \<^verbatim>\<open>name\<close> is \<^verbatim>\<open>NOT NULL\<close>.
\<close>

definition insert_course ::
  "string option \<Rightarrow> string option \<Rightarrow> string option \<Rightarrow> database \<Rightarrow> course_row list result" where
  "insert_course name description instructor db =
     (if \<not> online db then (Inl StoreError, db)
      else if \<not> fits_varchar255 name \<or> \<not> fits_varchar255 instructor
      then (Inl StoreError, db)
      else
        let nid = seq_courses db + 1; db1 = db\<lparr>seq_courses := nid\<rparr> in
        case name of
          None \<Rightarrow> (Inl StoreError, db1)
        | Some n \<Rightarrow>
            if nid \<in> set (map c_id (tbl_courses db)) then (Inl StoreError, db1)
            else
              let row = \<lparr>c_id = nid, c_name = n, c_description = description,
                         c_instructor = instructor\<rparr>
              in (Inr [row], db1\<lparr>tbl_courses := tbl_courses db @ [row]\<rparr>))"

text \<open>
  The foreign key \<^verbatim>\<open>course_id INTEGER REFERENCES courses(id)\<close>: a non-\<^verbatim>\<open>NULL\<close> value
  must be the identifier of a stored course.
\<close>

definition course_id_ok :: "int option \<Rightarrow> database \<Rightarrow> bool" where
  "course_id_ok course_id db =
     (case course_id of None \<Rightarrow> True | Some c \<Rightarrow> c \<in> set (map c_id (tbl_courses db)))"

text \<open>
  \<^verbatim>\<open>INSERT INTO assignments (title, description, due_date, course_id)
  VALUES ($1, $2, $3, $4) RETURNING *\<close>: \<^verbatim>\<open>title\<close> is \<^verbatim>\<open>VARCHAR(255)\<close> and \<^verbatim>\<open>NOT NULL\<close>,
  \<^verbatim>\<open>course_id\<close> is an \<^verbatim>\<open>INTEGER\<close> and a foreign key, \<^verbatim>\<open>file_path\<close> is left \<^verbatim>\<open>NULL\<close>. A due
  date is kept as the text sent: its conversion to \<^verbatim>\<open>TIMESTAMP\<close>, which rejects a text that
  is no date and gives the row another spelling of one that is, is not modelled.
\<close>

definition insert_assignment ::
  "string option \<Rightarrow> string option \<Rightarrow> string option \<Rightarrow> int option \<Rightarrow> database
     \<Rightarrow> assignment_row list result" where
  "insert_assignment title description due_date course_id db =
     (if \<not> online db then (Inl StoreError, db)
      else if \<not> fits_varchar255 title \<or> \<not> fits_int4 course_id
      then (Inl StoreError, db)
      else
        let nid = seq_assignments db + 1; db1 = db\<lparr>seq_assignments := nid\<rparr> in
        case title of
          None \<Rightarrow> (Inl StoreError, db1)
        | Some t \<Rightarrow>
            if nid \<in> set (map a_id (tbl_assignments db)) \<or> \<not> course_id_ok course_id db
            then (Inl StoreError, db1)
            else
              let row = \<lparr>a_id = nid, a_title = t, a_description = description,
                         a_due_date = due_date, a_course_id = course_id, a_file_path = None\<rparr>
              in (Inr [row], db1\<lparr>tbl_assignments := tbl_assignments db @ [row]\<rparr>))"

text \<open>
  The \<^verbatim>\<open>UPDATE\<close> and \<^verbatim>\<open>DELETE\<close> statements on \<^verbatim>\<open>courses\<close> and \<^verbatim>\<open>assignments\<close> are modelled
  for parameters that fit the types of their columns. The four definitions below do not
  reject an identifier outside \<^verbatim>\<open>INTEGER\<close>, a text longer than \<^verbatim>\<open>VARCHAR(255)\<close> or a due
  date that is no date, as PostgreSQL does: an identifier outside \<^verbatim>\<open>INTEGER\<close> is here one
  that no row has.
\<close>

text \<open>
  \<^verbatim>\<open>UPDATE courses SET name = $1, description = $2, instructor = $3 WHERE id = $4
  RETURNING *\<close>. Constraints are checked on the rows written: with no row of that
  identifier nothing is checked and no row is returned. As for \<^verbatim>\<open>users\<close>, the table
  afterwards is the rows kept followed by the new versions.
\<close>

definition update_course ::
  "string option \<Rightarrow> string option \<Rightarrow> string option \<Rightarrow> int \<Rightarrow> database
     \<Rightarrow> course_row list result" where
  "update_course name description instructor ident db =
     (if \<not> online db then (Inl StoreError, db)
      else if filter (\<lambda>c. c_id c = ident) (tbl_courses db) = [] then (Inr [], db)
      else
        case name of
          None \<Rightarrow> (Inl StoreError, db)
        | Some n \<Rightarrow>
            let set_cols = (\<lambda>c. c\<lparr>c_name := n, c_description := description,
                                  c_instructor := instructor\<rparr>)
            in (Inr (map set_cols (filter (\<lambda>c. c_id c = ident) (tbl_courses db))),
                db\<lparr>tbl_courses :=
                     filter (\<lambda>c. c_id c \<noteq> ident) (tbl_courses db)
                     @ map set_cols (filter (\<lambda>c. c_id c = ident) (tbl_courses db))\<rparr>))"

text \<open>
  \<^verbatim>\<open>UPDATE assignments SET title = $1, description = $2, due_date = $3, course_id = $4
  WHERE id = $5 RETURNING *\<close>.
\<close>

definition update_assignment ::
  "string option \<Rightarrow> string option \<Rightarrow> string option \<Rightarrow> int option \<Rightarrow> int \<Rightarrow> database
     \<Rightarrow> assignment_row list result" where
  "update_assignment title description due_date course_id ident db =
     (if \<not> online db then (Inl StoreError, db)
      else if filter (\<lambda>a. a_id a = ident) (tbl_assignments db) = [] then (Inr [], db)
      else
        case title of
          None \<Rightarrow> (Inl StoreError, db)
        | Some t \<Rightarrow>
            if \<not> course_id_ok course_id db then (Inl StoreError, db)
            else
              let set_cols = (\<lambda>a. a\<lparr>a_title := t, a_description := description,
                                    a_due_date := due_date, a_course_id := course_id\<rparr>)
              in (Inr (map set_cols (filter (\<lambda>a. a_id a = ident) (tbl_assignments db))),
                  db\<lparr>tbl_assignments :=
                       filter (\<lambda>a. a_id a \<noteq> ident) (tbl_assignments db)
                       @ map set_cols
                           (filter (\<lambda>a. a_id a = ident) (tbl_assignments db))\<rparr>))"

text \<open>
  \<^verbatim>\<open>DELETE FROM courses WHERE id = $1\<close>, with or without \<^verbatim>\<open>RETURNING *\<close>: the rows
  deleted are the result. The foreign key of \<^verbatim>\<open>assignments\<close> has no \<^verbatim>\<open>ON DELETE\<close>
  action, so deleting a course that an assignment refers to fails. No statement of the
  schema ties \<^verbatim>\<open>users.tracked_courses\<close> to \<^verbatim>\<open>courses\<close>.
\<close>

definition delete_course :: "int \<Rightarrow> database \<Rightarrow> course_row list result" where
  "delete_course ident db =
     (if \<not> online db then (Inl StoreError, db)
      else if filter (\<lambda>c. c_id c = ident) (tbl_courses db) \<noteq> []
              \<and> Some ident \<in> set (map a_course_id (tbl_assignments db))
      then (Inl StoreError, db)
      else (Inr (filter (\<lambda>c. c_id c = ident) (tbl_courses db)),
            db\<lparr>tbl_courses := filter (\<lambda>c. c_id c \<noteq> ident) (tbl_courses db)\<rparr>))"

text \<open>\<^verbatim>\<open>DELETE FROM assignments WHERE id = $1\<close>, with or without \<^verbatim>\<open>RETURNING *\<close>.\<close>

definition delete_assignment :: "int \<Rightarrow> database \<Rightarrow> assignment_row list result" where
  "delete_assignment ident db =
     (if \<not> online db then (Inl StoreError, db)
      else (Inr (filter (\<lambda>a. a_id a = ident) (tbl_assignments db)),
            db\<lparr>tbl_assignments := filter (\<lambda>a. a_id a \<noteq> ident) (tbl_assignments db)\<rparr>))"

section \<open>Requests and responses\<close>

text \<open>JSON values; an object keeps its members in order.\<close>

datatype json =
    JNull
  | JBool bool
  | JNum int
  | JStr string
  | JArr "json list"
  | JObj "(string \<times> json) list"

text \<open>Does a member named \<open>k\<close> occur anywhere in the value?\<close>

fun has_key :: "string \<Rightarrow> json \<Rightarrow> bool" where
  "has_key k (JArr xs) = list_ex (has_key k) xs"
| "has_key k (JObj kvs) = list_ex (\<lambda>kv. fst kv = k \<or> has_key k (snd kv)) kvs"
| "has_key k _ = False"

text \<open>
  A response: the status set by \<^verbatim>\<open>res.status\<close> and what \<^verbatim>\<open>res.json\<close> or \<^verbatim>\<open>res.send\<close>
  wrote. \<^verbatim>\<open>res.send()\<close> and \<^verbatim>\<open>res.json(undefined)\<close> write no body, \<^verbatim>\<open>res.send\<close> of a
  string writes text, of an object or array JSON.
\<close>

datatype body = NoBody | TextBody string | JsonBody json

record response =
  status :: nat
  body :: body

text \<open>
  An \<^verbatim>\<open>async\<close> handler either responds, or its promise rejects with the exception
  that escaped it and the handler has sent nothing.
\<close>

datatype outcome = Responded response | Rejected js_error

definition body_has_key :: "string \<Rightarrow> body \<Rightarrow> bool" where
  "body_has_key k b = (case b of JsonBody j \<Rightarrow> has_key k j | _ \<Rightarrow> False)"

definition outcome_has_key :: "string \<Rightarrow> outcome \<Rightarrow> bool" where
  "outcome_has_key k out =
     (case out of Responded r \<Rightarrow> body_has_key k (body r) | Rejected _ \<Rightarrow> False)"

text \<open>
  The parts of a request the handlers read: the path parameters \<^verbatim>\<open>req.params\<close> and
  the members of \<^verbatim>\<open>req.body\<close>, \<open>None\<close> for a member that is not sent.
\<close>

record request =
  params_id :: int
  params_userId :: int
  params_courseId :: int
  body_email :: "string option"
  body_password :: "string option"
  body_name :: "string option"
  body_description :: "string option"
  body_instructor :: "string option"
  body_title :: "string option"
  body_due_date :: "string option"
  body_course_id :: "int option"

text \<open>A row as the \<^verbatim>\<open>pg\<close> client returns it: one member per column.\<close>

definition json_opt :: "('a \<Rightarrow> json) \<Rightarrow> 'a option \<Rightarrow> json" where
  "json_opt f x = (case x of None \<Rightarrow> JNull | Some v \<Rightarrow> f v)"

definition user_json :: "user_row \<Rightarrow> json" where
  "user_json u = JObj
     [(''id'', JNum (u_id u)),
      (''email'', JStr (u_email u)),
      (''password_hash'', JStr (u_password_hash u)),
      (''verified'', JBool (u_verified u)),
      (''tracked_courses'', JArr (map JNum (u_tracked_courses u)))]"

definition course_json :: "course_row \<Rightarrow> json" where
  "course_json c = JObj
     [(''id'', JNum (c_id c)),
      (''name'', JStr (c_name c)),
      (''description'', json_opt JStr (c_description c)),
      (''instructor'', json_opt JStr (c_instructor c))]"

definition assignment_json :: "assignment_row \<Rightarrow> json" where
  "assignment_json a = JObj
     [(''id'', JNum (a_id a)),
      (''title'', JStr (a_title a)),
      (''description'', json_opt JStr (a_description a)),
      (''due_date'', json_opt JStr (a_due_date a)),
      (''course_id'', json_opt JNum (a_course_id a)),
      (''file_path'', json_opt JStr (a_file_path a))]"

text \<open>\<^verbatim>\<open>res.status(s).json(result.rows[0])\<close>: \<^verbatim>\<open>rows[0]\<close> of no rows is \<^verbatim>\<open>undefined\<close>.\<close>

definition json_first :: "nat \<Rightarrow> ('r \<Rightarrow> json) \<Rightarrow> 'r list \<Rightarrow> outcome" where
  "json_first s enc rows =
     (case rows of
        [] \<Rightarrow> Responded \<lparr>status = s, body = NoBody\<rparr>
      | row # _ \<Rightarrow> Responded \<lparr>status = s, body = JsonBody (enc row)\<rparr>)"

text \<open>\<^verbatim>\<open>res.status(s).json(result.rows)\<close>\<close>

definition json_rows :: "nat \<Rightarrow> ('r \<Rightarrow> json) \<Rightarrow> 'r list \<Rightarrow> outcome" where
  "json_rows s enc rows = Responded \<lparr>status = s, body = JsonBody (JArr (map enc rows))\<rparr>"

text \<open>\<^verbatim>\<open>res.status(s).json({ k: text })\<close>, also written \<^verbatim>\<open>res.status(s).send({ k: text })\<close>\<close>

definition json_msg :: "nat \<Rightarrow> string \<Rightarrow> string \<Rightarrow> outcome" where
  "json_msg s k text = Responded \<lparr>status = s, body = JsonBody (JObj [(k, JStr text)])\<rparr>"

text \<open>\<^verbatim>\<open>res.status(s).send(text)\<close>\<close>

definition send_text :: "nat \<Rightarrow> string \<Rightarrow> outcome" where
  "send_text s text = Responded \<lparr>status = s, body = TextBody text\<rparr>"

text \<open>
  What the handlers take from outside the repository: \<^verbatim>\<open>bcryptjs\<close>, \<^verbatim>\<open>jsonwebtoken\<close>
  (payload, key and \<^verbatim>\<open>expiresIn\<close> in seconds, giving the token), and the environment
  variable \<^verbatim>\<open>MY_SECRET_KEY\<close> read into \<^verbatim>\<open>SECRET\<close>.
\<close>

record libs =
  bcrypt_compareSync :: "string \<Rightarrow> string \<Rightarrow> bool"
  bcrypt_hashSync :: "string \<Rightarrow> nat \<Rightarrow> string"
  jwt_sign :: "(string \<times> json) list \<Rightarrow> string \<Rightarrow> nat \<Rightarrow> string"
  SECRET :: "string option"

text \<open>
  An element of the collection \<^verbatim>\<open>users\<close> that loginUser searches, with the properties
  it reads: \<^verbatim>\<open>email\<close>, \<^verbatim>\<open>password\<close>, \<^verbatim>\<open>id\<close>, \<^verbatim>\<open>verified\<close>.
\<close>

record mem_user =
  m_id :: int
  m_email :: string
  m_password :: string
  m_verified :: bool

section \<open>Route handlers: the second definitions\<close>

text \<open>
  \<^verbatim>\<open>src/app.js\<close> declares every handler twice. A later function declaration replaces
  an earlier one of the same name, so the routes run the definitions of lines 546 to
  725, modelled here under the names of the source. A handler takes the request and the
  store and gives its outcome and the store afterwards. (The file repeats its top-level
  \<^verbatim>\<open>const\<close> declarations too; the model is of the handlers as they are declared.)
\<close>

text \<open>
  loginUser, lines 555 to 570. No declaration of the source files binds \<^verbatim>\<open>users\<close>: the
  collection is a parameter, \<open>None\<close> when the identifier is unbound. \<^verbatim>\<open>users.find\<close>
  returns the first element whose email is the one sent. The store is not an argument:
  the handler makes no query.
\<close>

definition loginUser :: "libs \<Rightarrow> mem_user list option \<Rightarrow> request \<Rightarrow> outcome" where
  "loginUser L users req =
     (case users of
        None \<Rightarrow> Rejected ReferenceError
      | Some us \<Rightarrow>
          (case find (\<lambda>u. Some (m_email u) = body_email req) us of
             None \<Rightarrow> send_text 404 ''User not found''
           | Some user \<Rightarrow>
               (case body_password req of
                  None \<Rightarrow> Rejected IllegalArguments
                | Some password \<Rightarrow>
                    if \<not> bcrypt_compareSync L password (m_password user)
                    then send_text 401 ''Invalid password''
                    else
                      (case SECRET L of
                         None \<Rightarrow> Rejected SecretMissing
                       | Some key \<Rightarrow>
                           if key = [] then Rejected SecretMissing
                           else Responded \<lparr>status = 200, body = JsonBody (JObj
                             [(''auth'', JBool True),
                              (''token'', JStr (jwt_sign L
                                 [(''id'', JNum (m_id user)),
                                  (''verified'', JBool (m_verified user))]
                                 key 86400))])\<rparr>))))"

text \<open>createUser, lines 572 to 591.\<close>

definition createUser :: "libs \<Rightarrow> request \<Rightarrow> database \<Rightarrow> outcome \<times> database" where
  "createUser L req db =
     (case select_users (\<lambda>u. Some (u_email u) = body_email req) db of
        (Inl e, db1) \<Rightarrow> (Rejected e, db1)
      | (Inr existingUser, db1) \<Rightarrow>
          if length existingUser > 0
          then (json_msg 400 ''message'' ''Email already exists'', db1)
          else
            (case body_password req of
               None \<Rightarrow> (Rejected IllegalArguments, db1)
             | Some password \<Rightarrow>
                 (case insert_user (body_email req) (bcrypt_hashSync L password 8) False db1 of
                    (Inl e, db2) \<Rightarrow> (Rejected e, db2)
                  | (Inr rows, db2) \<Rightarrow> (json_first 201 user_json rows, db2))))"













text \<open>updateCourse, lines 695 to 703, and updateAssignment, lines 705 to 713.\<close>

definition updateCourse :: "request \<Rightarrow> database \<Rightarrow> outcome \<times> database" where
  "updateCourse req db =
     (case update_course (body_name req) (body_description req) (body_instructor req)
             (params_id req) db of
        (Inl e, db1) \<Rightarrow> (Rejected e, db1)
      | (Inr rows, db1) \<Rightarrow> (json_first 200 course_json rows, db1))"

definition updateAssignment :: "request \<Rightarrow> database \<Rightarrow> outcome \<times> database" where
  "updateAssignment req db =
     (case update_assignment (body_title req) (body_description req) (body_due_date req)
             (body_course_id req) (params_id req) db of
        (Inl e, db1) \<Rightarrow> (Rejected e, db1)
      | (Inr rows, db1) \<Rightarrow> (json_first 200 assignment_json rows, db1))"

text \<open>
  deleteCourse, lines 715 to 719, and deleteAssignment, lines 721 to 725: the result of
  the statement is not read.
\<close>

definition deleteCourse :: "request \<Rightarrow> database \<Rightarrow> outcome \<times> database" where
  "deleteCourse req db =
     (case delete_course (params_id req) db of
        (Inl e, db1) \<Rightarrow> (Rejected e, db1)
      | (Inr _, db1) \<Rightarrow> (Responded \<lparr>status = 204, body = NoBody\<rparr>, db1))"

definition deleteAssignment :: "request \<Rightarrow> database \<Rightarrow> outcome \<times> database" where
  "deleteAssignment req db =
     (case delete_assignment (params_id req) db of
        (Inl e, db1) \<Rightarrow> (Rejected e, db1)
      | (Inr _, db1) \<Rightarrow> (Responded \<lparr>status = 204, body = NoBody\<rparr>, db1))"

section \<open>Route handlers: the first definitions\<close>

text \<open>
  The definitions of lines 76 to 485, under the source's names with the suffix
  \<open>_first\<close>. All but loginUser run their statements inside \<^verbatim>\<open>try\<close> and answer 500
  from \<^verbatim>\<open>catch\<close>.
\<close>

text \<open>\<^verbatim>\<open>try { block } catch (err) { handler }\<close>\<close>

definition try_catch ::
  "outcome \<times> database \<Rightarrow> (js_error \<Rightarrow> outcome) \<Rightarrow> outcome \<times> database" where
  "try_catch block handler =
     (case block of
        (Rejected err, db) \<Rightarrow> (handler err, db)
      | (Responded r, db) \<Rightarrow> (Responded r, db))"

text \<open>uploadAssignment, lines 76 to 91.\<close>

definition uploadAssignment_first :: "request \<Rightarrow> database \<Rightarrow> outcome \<times> database" where
  "uploadAssignment_first req db =
     try_catch
       (case insert_assignment (body_title req) (body_description req) (body_due_date req)
               (body_course_id req) db of
          (Inl e, db1) \<Rightarrow> (Rejected e, db1)
        | (Inr rows, db1) \<Rightarrow> (json_first 201 assignment_json rows, db1))
       (\<lambda>err. json_msg 500 ''error'' ''Failed to upload assignment to database.'')"

text \<open>loginUser, lines 99 to 125.\<close>

definition loginUser_first :: "libs \<Rightarrow> mem_user list option \<Rightarrow> request \<Rightarrow> outcome" where
  "loginUser_first L users req =
     (case users of
        None \<Rightarrow> Rejected ReferenceError
      | Some us \<Rightarrow>
          (case find (\<lambda>u. Some (m_email u) = body_email req) us of
             None \<Rightarrow> json_msg 404 ''error'' ''User not found.''
           | Some user \<Rightarrow>
               (case body_password req of
                  None \<Rightarrow> Rejected IllegalArguments
                | Some password \<Rightarrow>
                    if \<not> bcrypt_compareSync L password (m_password user)
                    then json_msg 401 ''error'' ''Invalid password.''
                    else
                      (case SECRET L of
                         None \<Rightarrow> Rejected SecretMissing
                       | Some key \<Rightarrow>
                           if key = [] then Rejected SecretMissing
                           else Responded \<lparr>status = 200, body = JsonBody (JObj
                             [(''auth'', JBool True),
                              (''token'', JStr (jwt_sign L
                                 [(''id'', JNum (m_id user)),
                                  (''verified'', JBool (m_verified user))]
                                 key 86400))])\<rparr>))))"

text \<open>createUser, lines 133 to 158.\<close>

definition createUser_first :: "libs \<Rightarrow> request \<Rightarrow> database \<Rightarrow> outcome \<times> database" where
  "createUser_first L req db =
     try_catch
       (case select_users (\<lambda>u. Some (u_email u) = body_email req) db of
          (Inl e, db1) \<Rightarrow> (Rejected e, db1)
        | (Inr existingUser, db1) \<Rightarrow>
            if length existingUser > 0
            then (json_msg 400 ''error'' ''Email already exists.'', db1)
            else
              (case body_password req of
                 None \<Rightarrow> (Rejected IllegalArguments, db1)
               | Some password \<Rightarrow>
                   (case insert_user (body_email req) (bcrypt_hashSync L password 8) False db1 of
                      (Inl e, db2) \<Rightarrow> (Rejected e, db2)
                    | (Inr rows, db2) \<Rightarrow> (json_first 201 user_json rows, db2))))
       (\<lambda>err. json_msg 500 ''error'' ''Failed to create user.'')"

text \<open>verifyUser, lines 166 to 184.\<close>

definition verifyUser_first :: "request \<Rightarrow> database \<Rightarrow> outcome \<times> database" where
  "verifyUser_first req db =
     try_catch
       (case select_user_by_id (params_userId req) db of
          (Inl e, db1) \<Rightarrow> (Rejected e, db1)
        | (Inr existingUser, db1) \<Rightarrow>
            if length existingUser = 0
            then (json_msg 404 ''error'' ''User not found.'', db1)
            else
              (case update_users_by_id (\<lambda>u. u\<lparr>u_verified := True\<rparr>)
                      (params_userId req) db1 of
                 (Inl e, db2) \<Rightarrow> (Rejected e, db2)
               | (Inr _, db2) \<Rightarrow>
                   (json_msg 200 ''message'' ''User verified successfully.'', db2)))
       (\<lambda>err. json_msg 500 ''error'' ''Failed to verify user.'')"

text \<open>createCourse, lines 192 to 206, and createAssignment, lines 214 to 229.\<close>

definition createCourse_first :: "request \<Rightarrow> database \<Rightarrow> outcome \<times> database" where
  "createCourse_first req db =
     try_catch
       (case insert_course (body_name req) (body_description req) (body_instructor req) db of
          (Inl e, db1) \<Rightarrow> (Rejected e, db1)
        | (Inr rows, db1) \<Rightarrow> (json_first 201 course_json rows, db1))
       (\<lambda>err. json_msg 500 ''error'' ''Failed to create course.'')"

definition createAssignment_first :: "request \<Rightarrow> database \<Rightarrow> outcome \<times> database" where
  "createAssignment_first req db =
     try_catch
       (case insert_assignment (body_title req) (body_description req) (body_due_date req)
               (body_course_id req) db of
          (Inl e, db1) \<Rightarrow> (Rejected e, db1)
        | (Inr rows, db1) \<Rightarrow> (json_first 201 assignment_json rows, db1))
       (\<lambda>err. json_msg 500 ''error'' ''Failed to create assignment.'')"

text \<open>trackCourse, lines 237 to 256, and untrackCourse, lines 264 to 283.\<close>

definition trackCourse_first :: "request \<Rightarrow> database \<Rightarrow> outcome \<times> database" where
  "trackCourse_first req db =
     try_catch
       (case select_user_by_id (params_userId req) db of
          (Inl e, db1) \<Rightarrow> (Rejected e, db1)
        | (Inr existingUser, db1) \<Rightarrow>
            if length existingUser = 0
            then (json_msg 404 ''error'' ''User not found.'', db1)
            else
              (case addTrackedCourse (params_userId req) (params_courseId req) db1 of
                 (Inl e, db2) \<Rightarrow> (Rejected e, db2)
               | (Inr _, db2) \<Rightarrow>
                   (json_msg 200 ''message'' ''Course added to tracked list.'', db2)))
       (\<lambda>err. json_msg 500 ''error'' ''Failed to add course to tracked list.'')"

definition untrackCourse_first :: "request \<Rightarrow> database \<Rightarrow> outcome \<times> database" where
  "untrackCourse_first req db =
     try_catch
       (case select_user_by_id (params_userId req) db of
          (Inl e, db1) \<Rightarrow> (Rejected e, db1)
        | (Inr existingUser, db1) \<Rightarrow>
            if length existingUser = 0
            then (json_msg 404 ''error'' ''User not found.'', db1)
            else
              (case removeTrackedCourse (params_userId req) (params_courseId req) db1 of
                 (Inl e, db2) \<Rightarrow> (Rejected e, db2)
               | (Inr _, db2) \<Rightarrow>
                   (json_msg 200 ''message'' ''Course removed from tracked list.'', db2)))
       (\<lambda>err. json_msg 500 ''error'' ''Failed to remove course from tracked list.'')"

text \<open>getAllUsers, getVerifiedUsers, getUnverifiedUsers, lines 291 to 331.\<close>

definition getAllUsers_first :: "request \<Rightarrow> database \<Rightarrow> outcome \<times> database" where
  "getAllUsers_first req db =
     try_catch
       (case select_users (\<lambda>u. True) db of
          (Inl e, db1) \<Rightarrow> (Rejected e, db1)
        | (Inr rows, db1) \<Rightarrow> (json_rows 200 user_json rows, db1))
       (\<lambda>err. json_msg 500 ''error'' ''Failed to fetch users.'')"

definition getVerifiedUsers_first :: "request \<Rightarrow> database \<Rightarrow> outcome \<times> database" where
  "getVerifiedUsers_first req db =
     try_catch
       (case select_users (\<lambda>u. u_verified u = True) db of
          (Inl e, db1) \<Rightarrow> (Rejected e, db1)
        | (Inr rows, db1) \<Rightarrow> (json_rows 200 user_json rows, db1))
       (\<lambda>err. json_msg 500 ''error'' ''Failed to fetch verified users.'')"

definition getUnverifiedUsers_first :: "request \<Rightarrow> database \<Rightarrow> outcome \<times> database" where
  "getUnverifiedUsers_first req db =
     try_catch
       (case select_users (\<lambda>u. u_verified u = False) db of
          (Inl e, db1) \<Rightarrow> (Rejected e, db1)
        | (Inr rows, db1) \<Rightarrow> (json_rows 200 user_json rows, db1))
       (\<lambda>err. json_msg 500 ''error'' ''Failed to fetch unverified users.'')"

text \<open>getAllCourses and getAllAssignments, lines 339 to 363.\<close>

definition getAllCourses_first :: "request \<Rightarrow> database \<Rightarrow> outcome \<times> database" where
  "getAllCourses_first req db =
     try_catch
       (case select_courses db of
          (Inl e, db1) \<Rightarrow> (Rejected e, db1)
        | (Inr rows, db1) \<Rightarrow> (json_rows 200 course_json rows, db1))
       (\<lambda>err. json_msg 500 ''error'' ''Failed to fetch courses.'')"

definition getAllAssignments_first :: "request \<Rightarrow> database \<Rightarrow> outcome \<times> database" where
  "getAllAssignments_first req db =
     try_catch
       (case select_assignments db of
          (Inl e, db1) \<Rightarrow> (Rejected e, db1)
        | (Inr rows, db1) \<Rightarrow> (json_rows 200 assignment_json rows, db1))
       (\<lambda>err. json_msg 500 ''error'' ''Failed to fetch assignments.'')"

text \<open>getTrackedCoursesForUser, lines 371 to 389.\<close>

definition getTrackedCoursesForUser_first ::
  "request \<Rightarrow> database \<Rightarrow> outcome \<times> database" where
  "getTrackedCoursesForUser_first req db =
     try_catch
       (case select_user_by_id (params_userId req) db of
          (Inl e, db1) \<Rightarrow> (Rejected e, db1)
        | (Inr existingUser, db1) \<Rightarrow>
            if length existingUser = 0
            then (json_msg 404 ''error'' ''User not found.'', db1)
            else
              (case getTrackedCourses (params_userId req) db1 of
                 (Inl e, db2) \<Rightarrow> (Rejected e, db2)
               | (Inr courses, db2) \<Rightarrow>
                   (Responded \<lparr>status = 200, body = JsonBody (JArr (map JNum courses))\<rparr>,
                    db2)))
       (\<lambda>err. json_msg 500 ''error'' ''Failed to fetch tracked courses.'')"

text \<open>updateCourse, lines 397 to 415, and updateAssignment, lines 423 to 441.\<close>

definition updateCourse_first :: "request \<Rightarrow> database \<Rightarrow> outcome \<times> database" where
  "updateCourse_first req db =
     try_catch
       (case update_course (body_name req) (body_description req) (body_instructor req)
               (params_id req) db of
          (Inl e, db1) \<Rightarrow> (Rejected e, db1)
        | (Inr rows, db1) \<Rightarrow>
            if length rows = 0 then (json_msg 404 ''error'' ''Course not found.'', db1)
            else (json_first 200 course_json rows, db1))
       (\<lambda>err. json_msg 500 ''error'' ''Failed to update course.'')"

definition updateAssignment_first :: "request \<Rightarrow> database \<Rightarrow> outcome \<times> database" where
  "updateAssignment_first req db =
     try_catch
       (case update_assignment (body_title req) (body_description req) (body_due_date req)
               (body_course_id req) (params_id req) db of
          (Inl e, db1) \<Rightarrow> (Rejected e, db1)
        | (Inr rows, db1) \<Rightarrow>
            if length rows = 0 then (json_msg 404 ''error'' ''Assignment not found.'', db1)
            else (json_first 200 assignment_json rows, db1))
       (\<lambda>err. json_msg 500 ''error'' ''Failed to update assignment.'')"

text \<open>deleteCourse, lines 449 to 463, and deleteAssignment, lines 471 to 485.\<close>

definition deleteCourse_first :: "request \<Rightarrow> database \<Rightarrow> outcome \<times> database" where
  "deleteCourse_first req db =
     try_catch
       (case delete_course (params_id req) db of
          (Inl e, db1) \<Rightarrow> (Rejected e, db1)
        | (Inr rows, db1) \<Rightarrow>
            if length rows = 0 then (json_msg 404 ''error'' ''Course not found.'', db1)
            else (Responded \<lparr>status = 204, body = NoBody\<rparr>, db1))
       (\<lambda>err. json_msg 500 ''error'' ''Failed to delete course.'')"

definition deleteAssignment_first :: "request \<Rightarrow> database \<Rightarrow> outcome \<times> database" where
  "deleteAssignment_first req db =
     try_catch
       (case delete_assignment (params_id req) db of
          (Inl e, db1) \<Rightarrow> (Rejected e, db1)
        | (Inr rows, db1) \<Rightarrow>
            if length rows = 0 then (json_msg 404 ''error'' ''Assignment not found.'', db1)
            else (Responded \<lparr>status = 204, body = NoBody\<rparr>, db1))
       (\<lambda>err. json_msg 500 ''error'' ''Failed to delete assignment.'')"

section \<open>Observations and sample data\<close>

text \<open>The status of a response, when there is one.\<close>

definition status_of :: "outcome \<Rightarrow> nat option" where
  "status_of out = (case out of Responded r \<Rightarrow> Some (status r) | Rejected _ \<Rightarrow> None)"

text \<open>
  Sample data for the concrete instances below: an empty reachable store, a request with
  nothing set, and stand-ins for the two libraries (a hash is the password behind a
  prefix, a token is the key behind a prefix).
\<close>

definition empty_db :: database where
  "empty_db = \<lparr>online = True, tbl_users = [], tbl_courses = [], tbl_assignments = [],
                seq_users = 0, seq_courses = 0, seq_assignments = 0\<rparr>"

definition req0 :: request where
  "req0 = \<lparr>params_id = 0, params_userId = 0, params_courseId = 0,
            body_email = None, body_password = None, body_name = None,
            body_description = None, body_instructor = None, body_title = None,
            body_due_date = None, body_course_id = None\<rparr>"

definition sample_libs :: libs where
  "sample_libs =
     \<lparr>bcrypt_compareSync = (\<lambda>password hash. hash = ''$2a$08$'' @ password),
      bcrypt_hashSync = (\<lambda>password rounds. ''$2a$08$'' @ password),
      jwt_sign = (\<lambda>payload key expiresIn. ''jwt.'' @ key),
      SECRET = Some ''secret''\<rparr>"

text \<open>The registration and login request of the scenario of the specification.\<close>

definition req_a :: request where
  "req_a = req0\<lparr>body_email := Some ''a@x.com'', body_password := Some ''pw1''\<rparr>"

text \<open>The store after user 1 was registered by \<open>req_a\<close>.\<close>

definition user_a :: user_row where
  "user_a = \<lparr>u_id = 1, u_email = ''a@x.com'', u_password_hash = ''$2a$08$pw1'',
              u_verified = False, u_tracked_courses = []\<rparr>"

definition db_a :: database where
  "db_a = empty_db\<lparr>tbl_users := [user_a], seq_users := 1\<rparr>"

text \<open>User 1 tracking course 5 twice and course 7 once.\<close>

definition db_tracking :: database where
  "db_tracking = db_a\<lparr>tbl_users := [user_a\<lparr>u_tracked_courses := [5, 7, 5]\<rparr>]\<rparr>"

text \<open>
  An in-memory element for user 1, as loginUser reads it, and a login request with the
  wrong password.
\<close>

definition mem_a :: mem_user where
  "mem_a = \<lparr>m_id = 1, m_email = ''a@x.com'', m_password = ''$2a$08$pw1'', m_verified = False\<rparr>"

definition req_wrong :: request where
  "req_wrong = req0\<lparr>body_email := Some ''a@x.com'', body_password := Some ''wrong''\<rparr>"

definition req_unknown :: request where
  "req_unknown = req0\<lparr>body_email := Some ''b@x.com'', body_password := Some ''pw1''\<rparr>"

text \<open>A store with course 1, tracked by user 1, and then with an assignment of course 1.\<close>

definition course_1 :: course_row where
  "course_1 = \<lparr>c_id = 1, c_name = ''Logic'', c_description = None, c_instructor = None\<rparr>"

definition db_course :: database where
  "db_course = db_a\<lparr>tbl_users := [user_a\<lparr>u_tracked_courses := [1]\<rparr>],
                    tbl_courses := [course_1], seq_courses := 1\<rparr>"

definition assignment_1 :: assignment_row where
  "assignment_1 = \<lparr>a_id = 1, a_title = ''Essay'', a_description = None, a_due_date = None,
                    a_course_id = Some 1, a_file_path = None\<rparr>"

definition db_assigned :: database where
  "db_assigned = db_course\<lparr>tbl_assignments := [assignment_1], seq_assignments := 1\<rparr>"

definition db_offline :: database where
  "db_offline = db_assigned\<lparr>online := False\<rparr>"

text \<open>Requests that name identifier 7, stored nowhere, and identifier 1, with an empty body.\<close>

definition req_7 :: request where
  "req_7 = req0\<lparr>params_id := 7\<rparr>"

definition req_1 :: request where
  "req_1 = req0\<lparr>params_id := 1\<rparr>"

section \<open>Evaluating the sample data\<close>

lemmas sample_defs = empty_db_def req0_def req_a_def user_a_def db_a_def sample_libs_def
  db_tracking_def mem_a_def req_wrong_def req_unknown_def course_1_def db_course_def
  assignment_1_def db_assigned_def db_offline_def req_7_def req_1_def

section \<open>Tracked courses\<close>

lemma getTrackedCourses_Inr:
  "getTrackedCourses uid db = (Inr tracked, db') \<Longrightarrow>
   online db \<and> in_int4 uid \<and> db' = db \<and>
   (\<exists>row rest. filter (\<lambda>u. u_id u = uid) (tbl_users db) = row # rest \<and>
                u_tracked_courses row = tracked)"
  by (auto simp: getTrackedCourses_def select_user_by_id_def split: if_splits list.splits)

lemma filter_new_versions:
  "filter (\<lambda>u. u_id u = uid)
     (filter (\<lambda>u. u_id u \<noteq> uid) us
      @ map (\<lambda>u. u\<lparr>u_tracked_courses := f (u_tracked_courses u)\<rparr>)
          (filter (\<lambda>u. u_id u = uid) us))
   = map (\<lambda>u. u\<lparr>u_tracked_courses := f (u_tracked_courses u)\<rparr>)
       (filter (\<lambda>u. u_id u = uid) us)"
  by (induction us) (auto simp: filter_empty_conv)

lemma primary_key_single:
  "distinct (map u_id us) \<Longrightarrow> filter (\<lambda>u. u_id u = uid) us = row # rest \<Longrightarrow>
   u \<in> set us \<Longrightarrow> u_id u = uid \<Longrightarrow> u = row"
proof (induction us arbitrary: row rest)
  case Nil
  then show ?case by simp
next
  case (Cons a us)
  show ?case
  proof (cases "u_id a = uid")
    case True
    with Cons.prems have "row = a" by simp
    moreover from True Cons.prems have "u = a" by (cases "u = a") (auto simp: image_iff)
    ultimately show ?thesis by simp
  next
    case False
    with Cons show ?thesis by auto
  qed
qed

lemma update_tracked_ok:
  "online db \<Longrightarrow> in_int4 uid \<Longrightarrow>
   update_users_by_id (\<lambda>u. u\<lparr>u_tracked_courses := f (u_tracked_courses u)\<rparr>) uid db =
     (Inr (), db\<lparr>tbl_users := filter (\<lambda>u. u_id u \<noteq> uid) (tbl_users db)
        @ map (\<lambda>u. u\<lparr>u_tracked_courses := f (u_tracked_courses u)\<rparr>)
            (filter (\<lambda>u. u_id u = uid) (tbl_users db))\<rparr>)"
  by (simp add: update_users_by_id_def)

lemma getTrackedCourses_after_update:
  assumes "getTrackedCourses uid db = (Inr tracked, db)"
    and "update_users_by_id (\<lambda>u. u\<lparr>u_tracked_courses := f (u_tracked_courses u)\<rparr>) uid db
         = (Inr (), db')"
  shows "getTrackedCourses uid db' = (Inr (f tracked), db')"
proof -
  from getTrackedCourses_Inr[OF assms(1)] obtain row rest where
    on: "online db" "in_int4 uid"
    and f: "filter (\<lambda>u. u_id u = uid) (tbl_users db) = row # rest"
    and t: "u_tracked_courses row = tracked" by blast
  from assms(2) on have d: "db' = db\<lparr>tbl_users := filter (\<lambda>u. u_id u \<noteq> uid) (tbl_users db)
        @ map (\<lambda>u. u\<lparr>u_tracked_courses := f (u_tracked_courses u)\<rparr>)
            (filter (\<lambda>u. u_id u = uid) (tbl_users db))\<rparr>"
    by (simp add: update_users_by_id_def)
  have g: "filter (\<lambda>u. u_id u = uid)
             (filter (\<lambda>u. u_id u \<noteq> uid) (tbl_users db)
              @ map (\<lambda>u. u\<lparr>u_tracked_courses := f (u_tracked_courses u)\<rparr>)
                  (filter (\<lambda>u. u_id u = uid) (tbl_users db)))
           = map (\<lambda>u. u\<lparr>u_tracked_courses := f (u_tracked_courses u)\<rparr>) (row # rest)"
    using filter_new_versions[of uid "tbl_users db" f] by (simp only: f)
  from d have tbl: "tbl_users db' = filter (\<lambda>u. u_id u \<noteq> uid) (tbl_users db)
        @ map (\<lambda>u. u\<lparr>u_tracked_courses := f (u_tracked_courses u)\<rparr>)
            (filter (\<lambda>u. u_id u = uid) (tbl_users db))"
    and on': "online db'"
    using on by simp_all
  have "select_user_by_id uid db'
        = (Inr (map (\<lambda>u. u\<lparr>u_tracked_courses := f (u_tracked_courses u)\<rparr>) (row # rest)), db')"
    by (simp only: select_user_by_id_def tbl on' on g simp_thms if_True)
  then show ?thesis using t by (simp add: getTrackedCourses_def)
qed

lemma update_same_rows:
  assumes "getTrackedCourses uid db = (Inr tracked, db)"
    and "f tracked = tracked" and "distinct (map u_id (tbl_users db))"
    and "update_users_by_id (\<lambda>u. u\<lparr>u_tracked_courses := f (u_tracked_courses u)\<rparr>) uid db
         = (Inr (), db')"
  shows "mset (tbl_users db') = mset (tbl_users db) \<and> db'\<lparr>tbl_users := tbl_users db\<rparr> = db"
proof -
  from getTrackedCourses_Inr[OF assms(1)] obtain row rest where
    on: "online db" "in_int4 uid"
    and f: "filter (\<lambda>u. u_id u = uid) (tbl_users db) = row # rest"
    and t: "u_tracked_courses row = tracked" by blast
  from assms(4) on have d: "db' = db\<lparr>tbl_users := filter (\<lambda>u. u_id u \<noteq> uid) (tbl_users db)
        @ map (\<lambda>u. u\<lparr>u_tracked_courses := f (u_tracked_courses u)\<rparr>)
            (filter (\<lambda>u. u_id u = uid) (tbl_users db))\<rparr>"
    by (simp add: update_users_by_id_def)
  have same: "map (\<lambda>u. u\<lparr>u_tracked_courses := f (u_tracked_courses u)\<rparr>)
                (filter (\<lambda>u. u_id u = uid) (tbl_users db))
              = filter (\<lambda>u. u_id u = uid) (tbl_users db)"
  proof (rule map_idI)
    fix u assume "u \<in> set (filter (\<lambda>u. u_id u = uid) (tbl_users db))"
    then have "u \<in> set (tbl_users db)" "u_id u = uid" by simp_all
    with primary_key_single[OF assms(3) f] have "u = row" by simp
    with t assms(2) show "u\<lparr>u_tracked_courses := f (u_tracked_courses u)\<rparr> = u" by simp
  qed
  have "mset (filter (\<lambda>u. u_id u \<noteq> uid) (tbl_users db)
              @ filter (\<lambda>u. u_id u = uid) (tbl_users db)) = mset (tbl_users db)"
    by (induction "tbl_users db") auto
  with same show ?thesis unfolding d by simp
qed


lemma removeTrackedCourse_rejects:
  "\<not> in_int4 courseId \<Longrightarrow> removeTrackedCourse userId courseId db = (Inl StoreError, db)"
  by (simp add: removeTrackedCourse_def)

lemma addTrackedCourse_rejects:
  "\<not> in_int4 courseId \<Longrightarrow> addTrackedCourse userId courseId db = (Inl StoreError, db)"
  by (simp add: addTrackedCourse_def)

text \<open>
  C1, as stated, fails: course 2147483648 is not in the list of user 1, and
  removeTrackedCourse with it is an error, not a no-op. The identifier does not fit the
  \<^verbatim>\<open>INTEGER[]\<close> column and the statement is rejected.
\<close>

theorem removeTrackedCourse_out_of_range:
  "getTrackedCourses 1 db_tracking = (Inr [5, 7, 5], db_tracking) \<and>
   removeTrackedCourse 1 2147483648 db_tracking = (Inl StoreError, db_tracking)"
  by (simp add: getTrackedCourses_def select_user_by_id_def removeTrackedCourse_def in_int4_def
      sample_defs)

text \<open>
  C1, amended. Whenever getTrackedCourses returns a user's list: for every courseId
  within \<^verbatim>\<open>INTEGER\<close>, removeTrackedCourse succeeds, the list returned afterwards is the
  old one without any occurrence of courseId (the other entries in their order), so it
  does not contain courseId; and when courseId was not in the list (identifiers being a
  primary key) the table holds the same rows as before, in whatever order, and nothing
  else of the store has changed. For a courseId outside \<^verbatim>\<open>INTEGER\<close> the call is an error
  and the store is as it was.
\<close>

theorem removeTrackedCourse_removes_every_occurrence:
  assumes "getTrackedCourses userId db = (Inr tracked, db)"
  shows "(in_int4 courseId \<longrightarrow>
            (\<exists>db'. removeTrackedCourse userId courseId db = (Inr (), db') \<and>
               getTrackedCourses userId db'
                 = (Inr (filter (\<lambda>c. c \<noteq> courseId) tracked), db') \<and>
               courseId \<notin> set (filter (\<lambda>c. c \<noteq> courseId) tracked) \<and>
               (courseId \<notin> set tracked \<and> distinct (map u_id (tbl_users db)) \<longrightarrow>
                  mset (tbl_users db') = mset (tbl_users db) \<and>
                  db'\<lparr>tbl_users := tbl_users db\<rparr> = db))) \<and>
         (\<not> in_int4 courseId \<longrightarrow>
            removeTrackedCourse userId courseId db = (Inl StoreError, db))"
proof (intro conjI impI)
  assume r: "in_int4 courseId"
  let ?f = "filter (\<lambda>c. c \<noteq> courseId)"
  from getTrackedCourses_Inr[OF assms] have on: "online db" "in_int4 userId" by blast+
  obtain db' where u: "update_users_by_id
      (\<lambda>u. u\<lparr>u_tracked_courses := ?f (u_tracked_courses u)\<rparr>) userId db = (Inr (), db')"
    using update_tracked_ok[OF on, where f = ?f] by simp
  from u r have a: "removeTrackedCourse userId courseId db = (Inr (), db')"
    by (simp add: removeTrackedCourse_def array_remove_def)
  have b: "getTrackedCourses userId db' = (Inr (?f tracked), db')"
    by (rule getTrackedCourses_after_update[OF assms u])
  have c: "courseId \<notin> set tracked \<and> distinct (map u_id (tbl_users db)) \<longrightarrow>
      mset (tbl_users db') = mset (tbl_users db) \<and> db'\<lparr>tbl_users := tbl_users db\<rparr> = db"
  proof
    assume h: "courseId \<notin> set tracked \<and> distinct (map u_id (tbl_users db))"
    then have "?f tracked = tracked" by (auto simp: filter_id_conv)
    from update_same_rows[OF assms this _ u] h
    show "mset (tbl_users db') = mset (tbl_users db) \<and> db'\<lparr>tbl_users := tbl_users db\<rparr> = db"
      by blast
  qed
  from a b c show "\<exists>db'. removeTrackedCourse userId courseId db = (Inr (), db') \<and>
      getTrackedCourses userId db' = (Inr (?f tracked), db') \<and>
      courseId \<notin> set (?f tracked) \<and>
      (courseId \<notin> set tracked \<and> distinct (map u_id (tbl_users db)) \<longrightarrow>
         mset (tbl_users db') = mset (tbl_users db) \<and> db'\<lparr>tbl_users := tbl_users db\<rparr> = db)"
    by (intro exI[of _ db']) simp
next
  assume "\<not> in_int4 courseId"
  then show "removeTrackedCourse userId courseId db = (Inl StoreError, db)"
    by (rule removeTrackedCourse_rejects)
qed

theorem removeTrackedCourse_removes_every_occurrence_witness:
  "getTrackedCourses 1 db_tracking = (Inr [5, 7, 5], db_tracking) \<and>
   in_int4 5 \<and>
   (\<exists>db'. removeTrackedCourse 1 5 db_tracking = (Inr (), db') \<and>
          getTrackedCourses 1 db' = (Inr [7], db')) \<and>
   in_int4 9 \<and> 9 \<notin> set [5, 7, 5 :: int] \<and> distinct (map u_id (tbl_users db_tracking)) \<and>
   (\<exists>db'. removeTrackedCourse 1 9 db_tracking = (Inr (), db') \<and>
          getTrackedCourses 1 db' = (Inr [5, 7, 5], db') \<and>
          mset (tbl_users db') = mset (tbl_users db_tracking)) \<and>
   \<not> in_int4 2147483648 \<and>
   removeTrackedCourse 1 2147483648 db_tracking = (Inl StoreError, db_tracking)"
proof -
  have h: "getTrackedCourses 1 db_tracking = (Inr [5, 7, 5], db_tracking)"
    by (simp add: getTrackedCourses_def select_user_by_id_def in_int4_def sample_defs)
  have r: "in_int4 5" "in_int4 9" "\<not> in_int4 2147483648"
    by (simp_all add: in_int4_def)
  have d: "distinct (map u_id (tbl_users db_tracking))" "9 \<notin> set [5, 7, 5 :: int]"
    by (simp_all add: db_tracking_def)
  note t5 = removeTrackedCourse_removes_every_occurrence[OF h, of 5]
  note t9 = removeTrackedCourse_removes_every_occurrence[OF h, of 9]
  note tx = removeTrackedCourse_removes_every_occurrence[OF h, of 2147483648]
  from t5 r have 1: "\<exists>db'. removeTrackedCourse 1 5 db_tracking = (Inr (), db') \<and>
          getTrackedCourses 1 db' = (Inr [7], db')"
    by auto
  from t9 r d have 2: "\<exists>db'. removeTrackedCourse 1 9 db_tracking = (Inr (), db') \<and>
          getTrackedCourses 1 db' = (Inr [5, 7, 5], db') \<and>
          mset (tbl_users db') = mset (tbl_users db_tracking)"
    by auto
  from tx r have 3: "removeTrackedCourse 1 2147483648 db_tracking = (Inl StoreError, db_tracking)"
    by blast
  show ?thesis
    apply (intro conjI)
    apply (rule h)
    apply (rule r(1))
    apply (rule 1)
    apply (rule r(2))
    apply (rule d(2))
    apply (rule d(1))
    apply (rule 2)
    apply (rule r(3))
    apply (rule 3)
    done
qed

text \<open>
  C2, as stated, fails: addTrackedCourse for the existing user 1 with course 2147483648
  is rejected and stores no entry.
\<close>

theorem addTrackedCourse_out_of_range:
  "getTrackedCourses 1 db_a = (Inr [], db_a) \<and>
   addTrackedCourse 1 2147483648 db_a = (Inl StoreError, db_a)"
  by (simp add: getTrackedCourses_def select_user_by_id_def addTrackedCourse_def in_int4_def
      sample_defs)

text \<open>
  C2, amended. Whenever getTrackedCourses returns a user's list: for every courseId
  within \<^verbatim>\<open>INTEGER\<close>, two calls of addTrackedCourse with the same course both succeed
  and the list returned afterwards is the old one followed by courseId twice: nothing is
  deduplicated and the order of insertion is kept. On the freshly registered user 1,
  tracking course 5 twice gives \<open>[5, 5]\<close>. For a courseId outside \<^verbatim>\<open>INTEGER\<close> the call is
  an error and the store is as it was.
\<close>

theorem addTrackedCourse_keeps_duplicates:
  assumes "getTrackedCourses userId db = (Inr tracked, db)"
  shows "(in_int4 courseId \<longrightarrow>
            (\<exists>db1 db2. addTrackedCourse userId courseId db = (Inr (), db1) \<and>
               addTrackedCourse userId courseId db1 = (Inr (), db2) \<and>
               getTrackedCourses userId db2 = (Inr (tracked @ [courseId, courseId]), db2))) \<and>
         (\<not> in_int4 courseId \<longrightarrow>
            addTrackedCourse userId courseId db = (Inl StoreError, db))"
proof (intro conjI impI)
  assume r: "in_int4 courseId"
  let ?app = "\<lambda>xs. xs @ [courseId]"
  from getTrackedCourses_Inr[OF assms] have on: "online db" "in_int4 userId" by blast+
  obtain db1 where u1: "update_users_by_id
      (\<lambda>u. u\<lparr>u_tracked_courses := ?app (u_tracked_courses u)\<rparr>) userId db = (Inr (), db1)"
    using update_tracked_ok[OF on, where f = ?app] by simp
  have g1: "getTrackedCourses userId db1 = (Inr (?app tracked), db1)"
    by (rule getTrackedCourses_after_update[OF assms u1])
  from getTrackedCourses_Inr[OF g1] have on1: "online db1" "in_int4 userId" by blast+
  obtain db2 where u2: "update_users_by_id
      (\<lambda>u. u\<lparr>u_tracked_courses := ?app (u_tracked_courses u)\<rparr>) userId db1 = (Inr (), db2)"
    using update_tracked_ok[OF on1, where f = ?app] by simp
  have g2: "getTrackedCourses userId db2 = (Inr (?app (?app tracked)), db2)"
    by (rule getTrackedCourses_after_update[OF g1 u2])
  from u1 r have a1: "addTrackedCourse userId courseId db = (Inr (), db1)"
    by (simp add: addTrackedCourse_def array_append_def)
  from u2 r have a2: "addTrackedCourse userId courseId db1 = (Inr (), db2)"
    by (simp add: addTrackedCourse_def array_append_def)
  from a1 a2 g2 show "\<exists>db1 db2. addTrackedCourse userId courseId db = (Inr (), db1) \<and>
      addTrackedCourse userId courseId db1 = (Inr (), db2) \<and>
      getTrackedCourses userId db2 = (Inr (tracked @ [courseId, courseId]), db2)"
    by (intro exI[of _ db1] exI[of _ db2]) simp
next
  assume "\<not> in_int4 courseId"
  then show "addTrackedCourse userId courseId db = (Inl StoreError, db)"
    by (rule addTrackedCourse_rejects)
qed

theorem addTrackedCourse_keeps_duplicates_witness:
  "getTrackedCourses 1 db_a = (Inr [], db_a) \<and>
   in_int4 5 \<and>
   (\<exists>db1 db2. addTrackedCourse 1 5 db_a = (Inr (), db1) \<and>
               addTrackedCourse 1 5 db1 = (Inr (), db2) \<and>
               getTrackedCourses 1 db2 = (Inr [5, 5], db2)) \<and>
   \<not> in_int4 2147483648 \<and>
   addTrackedCourse 1 2147483648 db_a = (Inl StoreError, db_a)"
proof -
  have h: "getTrackedCourses 1 db_a = (Inr [], db_a)"
    by (simp add: getTrackedCourses_def select_user_by_id_def in_int4_def sample_defs)
  have r: "in_int4 5" "\<not> in_int4 2147483648"
    by (simp_all add: in_int4_def)
  note t5 = addTrackedCourse_keeps_duplicates[OF h, of 5]
  note tx = addTrackedCourse_keeps_duplicates[OF h, of 2147483648]
  from t5 r have 1: "\<exists>db1 db2. addTrackedCourse 1 5 db_a = (Inr (), db1) \<and>
               addTrackedCourse 1 5 db1 = (Inr (), db2) \<and>
               getTrackedCourses 1 db2 = (Inr [5, 5], db2)"
    by auto
  from tx r have 2: "addTrackedCourse 1 2147483648 db_a = (Inl StoreError, db_a)"
    by blast
  show ?thesis
    apply (intro conjI)
    apply (rule h)
    apply (rule r(1))
    apply (rule 1)
    apply (rule r(2))
    apply (rule 2)
    done
qed

section \<open>Login\<close>

text \<open>
  C3, as stated, fails: a login whose email matches no element of the collection is
  answered 404 by both definitions, not 401.
\<close>

theorem loginUser_unknown_email_404:
  "status_of (loginUser sample_libs (Some [mem_a]) req_unknown) = Some 404 \<and>
   status_of (loginUser_first sample_libs (Some [mem_a]) req_unknown) = Some 404"
  by (simp add: loginUser_def loginUser_first_def status_of_def send_text_def json_msg_def
      sample_defs)

text \<open>
  C3, amended. With the collection bound, a login whose email matches no element is
  answered 404 (user not found); a login whose email matches an element and whose
  password is a string that does not match the element's hash is answered 401.
\<close>

theorem loginUser_failure_status:
  "(find (\<lambda>u. Some (m_email u) = body_email req) us = None \<longrightarrow>
      loginUser L (Some us) req = send_text 404 ''User not found'' \<and>
      loginUser_first L (Some us) req = json_msg 404 ''error'' ''User not found.'') \<and>
   (find (\<lambda>u. Some (m_email u) = body_email req) us = Some user \<and>
    body_password req = Some password \<and>
    \<not> bcrypt_compareSync L password (m_password user) \<longrightarrow>
      loginUser L (Some us) req = send_text 401 ''Invalid password'' \<and>
      loginUser_first L (Some us) req = json_msg 401 ''error'' ''Invalid password.'')"
  by (simp add: loginUser_def loginUser_first_def)

theorem loginUser_failure_status_witness:
  "find (\<lambda>u. Some (m_email u) = body_email req_unknown) [mem_a] = None \<and>
   status_of (loginUser sample_libs (Some [mem_a]) req_unknown) = Some 404 \<and>
   status_of (loginUser_first sample_libs (Some [mem_a]) req_unknown) = Some 404 \<and>
   find (\<lambda>u. Some (m_email u) = body_email req_wrong) [mem_a] = Some mem_a \<and>
   body_password req_wrong = Some ''wrong'' \<and>
   \<not> bcrypt_compareSync sample_libs ''wrong'' (m_password mem_a) \<and>
   status_of (loginUser sample_libs (Some [mem_a]) req_wrong) = Some 401 \<and>
   status_of (loginUser_first sample_libs (Some [mem_a]) req_wrong) = Some 401"
  using loginUser_failure_status[where req = req_unknown and us = "[mem_a]" and L = sample_libs]
    loginUser_failure_status[where req = req_wrong and us = "[mem_a]" and L = sample_libs
      and user = mem_a and password = "''wrong''"]
  by (simp add: sample_defs status_of_def send_text_def json_msg_def)

text \<open>
  C4 fails on the code. After createUser has stored user 1 with a hash that matches the
  password, the login with the same email and password is not answered from the store:
  with \<^verbatim>\<open>users\<close> unbound, as in the source files, the handler throws; with the
  collection bound and empty it answers 404.
\<close>

theorem loginUser_ignores_store:
  "createUser sample_libs req_a empty_db =
     (Responded \<lparr>status = 201, body = JsonBody (user_json user_a)\<rparr>, db_a) \<and>
   bcrypt_compareSync sample_libs ''pw1'' (u_password_hash user_a) \<and>
   loginUser sample_libs None req_a = Rejected ReferenceError \<and>
   loginUser_first sample_libs None req_a = Rejected ReferenceError \<and>
   loginUser sample_libs (Some []) req_a = send_text 404 ''User not found'' \<and>
   loginUser_first sample_libs (Some []) req_a = json_msg 404 ''error'' ''User not found.''"
  by (simp add: createUser_def select_users_def insert_user_def fits_varchar255_def json_first_def Let_def
      loginUser_def loginUser_first_def sample_defs)



section \<open>The password hash in responses\<close>


lemma user_json_hash: "has_key ''password_hash'' (user_json u)"
  by (simp add: user_json_def)

lemma course_json_no_hash: "\<not> has_key ''password_hash'' (course_json c)"
  by (simp add: course_json_def json_opt_def split: option.splits)

lemma assignment_json_no_hash: "\<not> has_key ''password_hash'' (assignment_json a)"
  by (simp add: assignment_json_def json_opt_def split: option.splits)

lemma json_msg_no_hash [simp]: "k \<noteq> ''password_hash'' \<Longrightarrow> \<not> outcome_has_key ''password_hash'' (json_msg s k t)"
  by (auto simp add: json_msg_def outcome_has_key_def body_has_key_def)

lemma send_text_no_hash [simp]: "\<not> outcome_has_key ''password_hash'' (send_text s t)"
  by (simp add: send_text_def outcome_has_key_def body_has_key_def)

lemma rejected_no_hash [simp]: "\<not> outcome_has_key k (Rejected e)"
  by (simp add: outcome_has_key_def)

lemma no_body_no_hash [simp]: "\<not> outcome_has_key k (Responded \<lparr>status = s, body = NoBody\<rparr>)"
  by (simp add: outcome_has_key_def body_has_key_def)

lemma json_nums_no_hash [simp]:
  "\<not> outcome_has_key k (Responded \<lparr>status = s, body = JsonBody (JArr (map JNum xs))\<rparr>)"
  by (simp add: outcome_has_key_def body_has_key_def list_ex_iff)

lemma json_first_course [simp]: "\<not> outcome_has_key ''password_hash'' (json_first s course_json rows)"
  by (simp add: json_first_def outcome_has_key_def body_has_key_def course_json_no_hash split: list.splits)

lemma json_first_assignment [simp]: "\<not> outcome_has_key ''password_hash'' (json_first s assignment_json rows)"
  by (simp add: json_first_def outcome_has_key_def body_has_key_def assignment_json_no_hash split: list.splits)

lemma json_rows_course [simp]: "\<not> outcome_has_key ''password_hash'' (json_rows s course_json rows)"
  by (simp add: json_rows_def outcome_has_key_def body_has_key_def course_json_no_hash list_ex_iff)

lemma json_rows_assignment [simp]: "\<not> outcome_has_key ''password_hash'' (json_rows s assignment_json rows)"
  by (simp add: json_rows_def outcome_has_key_def body_has_key_def assignment_json_no_hash list_ex_iff)

lemma json_rows_user [simp]: "outcome_has_key ''password_hash'' (json_rows s user_json rows) = (rows \<noteq> [])"
  by (cases rows) (simp_all add: json_rows_def outcome_has_key_def body_has_key_def user_json_hash)

lemma json_first_user [simp]: "outcome_has_key ''password_hash'' (json_first s user_json rows) = (rows \<noteq> [])"
  by (cases rows) (simp_all add: json_first_def outcome_has_key_def body_has_key_def user_json_hash)

lemma login_token_no_hash [simp]:
  "\<not> outcome_has_key ''password_hash'' (Responded \<lparr>status = s, body = JsonBody (JObj
      [(''auth'', JBool b), (''token'', JStr t)])\<rparr>)"
  by (simp add: outcome_has_key_def body_has_key_def)














section \<open>Registration with an email already stored\<close>

text \<open>
  C7. When the store is reachable and the email of the request is the email of a stored
  user, createUser answers 400 and returns the store as it was: no row is inserted. Both
  definitions do.
\<close>

theorem createUser_duplicate_email:
  assumes "online db" and "body_email req = Some e" and "e \<in> set (map u_email (tbl_users db))"
  shows "createUser L req db = (json_msg 400 ''message'' ''Email already exists'', db) \<and>
         createUser_first L req db = (json_msg 400 ''error'' ''Email already exists.'', db) \<and>
         status_of (fst (createUser L req db)) = Some 400 \<and>
         status_of (fst (createUser_first L req db)) = Some 400"
proof -
  from assms(2,3) have "filter (\<lambda>u. Some (u_email u) = body_email req) (tbl_users db) \<noteq> []"
    by (auto simp: filter_empty_conv)
  with assms(1) show ?thesis
    by (simp add: createUser_def createUser_first_def try_catch_def select_users_def
        json_msg_def status_of_def)
qed

theorem createUser_duplicate_email_witness:
  "online db_a \<and> body_email req_a = Some ''a@x.com'' \<and>
   ''a@x.com'' \<in> set (map u_email (tbl_users db_a)) \<and>
   createUser sample_libs req_a db_a = (json_msg 400 ''message'' ''Email already exists'', db_a) \<and>
   status_of (fst (createUser sample_libs req_a db_a)) = Some 400"
proof -
  have a: "online db_a" and b: "body_email req_a = Some ''a@x.com''"
    and c: "''a@x.com'' \<in> set (map u_email (tbl_users db_a))"
    by (simp_all add: sample_defs)
  note t = createUser_duplicate_email[OF a b c, of sample_libs]
  from t have x: "createUser sample_libs req_a db_a
      = (json_msg 400 ''message'' ''Email already exists'', db_a)" by (rule conjunct1)
  from t have y: "status_of (fst (createUser sample_libs req_a db_a)) = Some 400"
    by (rule conjunct1[OF conjunct2[OF conjunct2]])
  show ?thesis
    apply (intro conjI)
    apply (rule a)
    apply (rule b)
    apply (rule c)
    apply (rule x)
    apply (rule y)
    done
qed

section \<open>Deleting a course\<close>

lemma delete_course_users: "tbl_users (snd (delete_course ident db)) = tbl_users db \<and>
   online (snd (delete_course ident db)) = online db"
  by (simp add: delete_course_def)

lemma snd_deleteCourse: "snd (deleteCourse req db) = snd (delete_course (params_id req) db)"
proof -
  obtain r d where q: "delete_course (params_id req) db = (r, d)"
    by (cases "delete_course (params_id req) db")
  show ?thesis by (cases r) (simp_all add: deleteCourse_def q)
qed

lemma snd_deleteCourse_first:
  "snd (deleteCourse_first req db) = snd (delete_course (params_id req) db)"
proof -
  obtain r d where q: "delete_course (params_id req) db = (r, d)"
    by (cases "delete_course (params_id req) db")
  show ?thesis
    by (cases r) (simp_all add: deleteCourse_first_def try_catch_def json_msg_def q)
qed

lemma getTrackedCourses_cong:
  "tbl_users d' = tbl_users d \<Longrightarrow> online d' = online d \<Longrightarrow>
      fst (getTrackedCourses userId d') = fst (getTrackedCourses userId d)"
  by (simp add: getTrackedCourses_def select_user_by_id_def split: list.splits)

text \<open>
  C8. deleteCourse, in either definition and whatever its outcome, leaves the table of
  users as it was, so getTrackedCourses returns for every user what it returned before:
  the identifier of a deleted course stays in the lists that held it.
\<close>

theorem deleteCourse_keeps_tracked_courses:
  "tbl_users (snd (deleteCourse req db)) = tbl_users db \<and>
   tbl_users (snd (deleteCourse_first req db)) = tbl_users db \<and>
   fst (getTrackedCourses userId (snd (deleteCourse req db))) = fst (getTrackedCourses userId db) \<and>
   fst (getTrackedCourses userId (snd (deleteCourse_first req db))) = fst (getTrackedCourses userId db)"
proof -
  note k = delete_course_users[of "params_id req" db]
  have u: "tbl_users (snd (delete_course (params_id req) db)) = tbl_users db"
    and o: "online (snd (delete_course (params_id req) db)) = online db"
    using k by blast+
  show ?thesis
    unfolding snd_deleteCourse snd_deleteCourse_first
    using u getTrackedCourses_cong[OF u o] by (intro conjI)
qed

theorem deleteCourse_keeps_tracked_courses_witness:
  "getTrackedCourses 1 db_course = (Inr [1], db_course) \<and>
   deleteCourse req_1 db_course =
     (Responded \<lparr>status = 204, body = NoBody\<rparr>, db_course\<lparr>tbl_courses := []\<rparr>) \<and>
   fst (getTrackedCourses 1 (snd (deleteCourse req_1 db_course))) = Inr [1]"
proof -
  have g: "getTrackedCourses 1 db_course = (Inr [1], db_course)"
    by (simp add: getTrackedCourses_def select_user_by_id_def in_int4_def sample_defs)
  have d: "deleteCourse req_1 db_course =
      (Responded \<lparr>status = 204, body = NoBody\<rparr>, db_course\<lparr>tbl_courses := []\<rparr>)"
    by (simp add: deleteCourse_def delete_course_def sample_defs)
  note t = deleteCourse_keeps_tracked_courses[of req_1 db_course 1]
  from t have "fst (getTrackedCourses 1 (snd (deleteCourse req_1 db_course)))
      = fst (getTrackedCourses 1 db_course)"
    by (rule conjunct1[OF conjunct2[OF conjunct2]])
  then have r: "fst (getTrackedCourses 1 (snd (deleteCourse req_1 db_course)))
      = Inr [1]"
    by (simp only: g fst_conv)
  show ?thesis
    apply (intro conjI)
      apply (rule g)
     apply (rule d)
    apply (rule r)
    done
qed

section \<open>Missing identifiers and failing statements\<close>

text \<open>
  C6 fails on the code in effect. On a store that holds no course and no assignment,
  deleting identifier 7 is answered 204 and updating it 200 with no body; the first
  definitions of the same four handlers answer 404.
\<close>

theorem missing_target_not_404:
  "deleteCourse req_7 empty_db = (Responded \<lparr>status = 204, body = NoBody\<rparr>, empty_db) \<and>
   deleteAssignment req_7 empty_db = (Responded \<lparr>status = 204, body = NoBody\<rparr>, empty_db) \<and>
   updateCourse (req_7\<lparr>body_name := Some ''Logic''\<rparr>) empty_db
     = (Responded \<lparr>status = 200, body = NoBody\<rparr>, empty_db) \<and>
   updateAssignment (req_7\<lparr>body_title := Some ''Essay''\<rparr>) empty_db
     = (Responded \<lparr>status = 200, body = NoBody\<rparr>, empty_db) \<and>
   status_of (fst (deleteCourse_first req_7 empty_db)) = Some 404 \<and>
   status_of (fst (deleteAssignment_first req_7 empty_db)) = Some 404 \<and>
   status_of (fst (updateCourse_first (req_7\<lparr>body_name := Some ''Logic''\<rparr>) empty_db))
     = Some 404 \<and>
   status_of (fst (updateAssignment_first (req_7\<lparr>body_title := Some ''Essay''\<rparr>) empty_db))
     = Some 404"
  by (simp add: deleteCourse_def deleteAssignment_def updateCourse_def updateAssignment_def
      deleteCourse_first_def deleteAssignment_first_def updateCourse_first_def
      updateAssignment_first_def delete_course_def delete_assignment_def update_course_def
      update_assignment_def try_catch_def json_first_def json_msg_def status_of_def
      sample_defs)











end
